theory Spec2Isabelle
  imports
    Complex_Main
    "HOL-Library.Char_ord"
    "HOL-Library.List_Lexorder"
    "HOL-Library.Multiset"
begin

section \<open>Expense tracker: the record store\<close>

subsection \<open>Values\<close>

text \<open>
  A Python \<^verbatim>\<open>float\<close> as it reaches the store: a finite value or one of the three special
  values. Finite values are taken as exact reals: the rounding of binary64 arithmetic is
  not part of this model.
\<close>

datatype pyfloat = Finite real | PosInf | NegInf | NaN

text \<open>The comparison \<^verbatim>\<open>amount <= 0\<close>: every comparison with NaN is false.\<close>

fun le_zero :: "pyfloat \<Rightarrow> bool" where
  "le_zero (Finite r) = (r \<le> 0)"
| "le_zero NegInf = True"
| "le_zero PosInf = False"
| "le_zero NaN = False"

text \<open>Addition of floats, with the special values of IEEE 754.\<close>

fun fadd :: "pyfloat \<Rightarrow> pyfloat \<Rightarrow> pyfloat" where
  "fadd NaN _ = NaN"
| "fadd _ NaN = NaN"
| "fadd (Finite a) (Finite b) = Finite (a + b)"
| "fadd PosInf NegInf = NaN"
| "fadd NegInf PosInf = NaN"
| "fadd PosInf _ = PosInf"
| "fadd _ PosInf = PosInf"
| "fadd NegInf _ = NegInf"
| "fadd _ NegInf = NegInf"

subsection \<open>The table \<^verbatim>\<open>expenses\<close>\<close>

text \<open>
  One row of \<^verbatim>\<open>expenses(id INTEGER PRIMARY KEY AUTOINCREMENT, amount REAL NOT NULL,
  category TEXT NOT NULL, date TEXT NOT NULL)\<close>.
\<close>

record expense =
  exp_id :: int
  amount :: pyfloat
  category :: string
  date :: string

text \<open>
  The database file. \<open>expenses\<close> holds the rows of the table in storage order (the order
  of a scan without \<^verbatim>\<open>ORDER BY\<close>, which for a rowid table is ascending id);
  \<open>sqlite_sequence\<close> is the counter that \<^verbatim>\<open>AUTOINCREMENT\<close> keeps for the table: the
  largest id it has handed out. The table \<^verbatim>\<open>temp_expenses\<close> lives only inside
  \<^verbatim>\<open>delete_expense\<close>, which creates it and renames it away, so it is not a field.
\<close>

record database =
  expenses :: "expense list"
  sqlite_sequence :: int

datatype error = IntegrityError

definition payload :: "expense \<Rightarrow> pyfloat \<times> string \<times> string" where
  "payload r = (amount r, category r, date r)"

text \<open>\<^verbatim>\<open>_initialize_db\<close> on a new file: \<^verbatim>\<open>CREATE TABLE IF NOT EXISTS expenses\<close>.\<close>

definition initialize_db :: database where
  "initialize_db = \<lparr>expenses = [], sqlite_sequence = 0\<rparr>"

definition max_rowid :: "expense list \<Rightarrow> int" where
  "max_rowid rs = fold max (map exp_id rs) 0"

text \<open>
  One \<^verbatim>\<open>INSERT\<close> of \<open>(amount, category, date)\<close> with no id given: \<^verbatim>\<open>AUTOINCREMENT\<close>
  assigns one more than the largest id the table has ever held, and the row goes to the
  end of the table.
\<close>

definition insert_row :: "database \<Rightarrow> pyfloat \<Rightarrow> string \<Rightarrow> string \<Rightarrow> database" where
  "insert_row d a c t =
     (let new_id = max (sqlite_sequence d) (max_rowid (expenses d)) + 1
      in \<lparr>expenses = expenses d @ [\<lparr>exp_id = new_id, amount = a, category = c, date = t\<rparr>],
          sqlite_sequence = new_id\<rparr>)"

text \<open>
  \<^verbatim>\<open>DataStorage.add_expense\<close>: the insert, with no check of its own. The only failure is
  the one of the schema: SQLite binds a NaN as \<^verbatim>\<open>NULL\<close>, which \<^verbatim>\<open>NOT NULL\<close> refuses
  (\<^verbatim>\<open>sqlite3.IntegrityError\<close>); the table is then as before.
\<close>

definition add_expense :: "database \<Rightarrow> pyfloat \<Rightarrow> string \<Rightarrow> string \<Rightarrow> error + database" where
  "add_expense d a c t = (if a = NaN then Inl IntegrityError else Inr (insert_row d a c t))"

text \<open>
  \<^verbatim>\<open>DataStorage.delete_expense\<close>: \<^verbatim>\<open>DELETE FROM expenses WHERE id = ?\<close>, then the rebuild:
  a new empty table \<^verbatim>\<open>temp_expenses\<close>, every remaining row inserted into it without its
  id (\<^verbatim>\<open>INSERT INTO temp_expenses (amount, category, date) SELECT amount, category, date
  FROM expenses\<close>), the old table dropped and the new one renamed to \<^verbatim>\<open>expenses\<close>.
\<close>

definition delete_expense :: "database \<Rightarrow> int \<Rightarrow> database" where
  "delete_expense d expense_id =
     (let remaining = filter (\<lambda>r. exp_id r \<noteq> expense_id) (expenses d);
          temp_expenses = fold (\<lambda>r t. insert_row t (amount r) (category r) (date r))
                            remaining \<lparr>expenses = [], sqlite_sequence = 0\<rparr>
      in temp_expenses)"

text \<open>
  \<^verbatim>\<open>DataStorage.get_all_expenses\<close>: \<^verbatim>\<open>SELECT * FROM expenses ORDER BY date DESC\<close>. The
  column is \<^verbatim>\<open>TEXT\<close>, so the order is the bytewise order of the strings, largest first.
  Rows with equal dates are kept in storage order here (SQL leaves their order open).
\<close>

definition get_all_expenses :: "database \<Rightarrow> expense list" where
  "get_all_expenses d = rev (sort_key date (rev (expenses d)))"

subsection \<open>Well-formed tables\<close>

text \<open>The primary key: no two rows share an id.\<close>

definition pk_unique :: "database \<Rightarrow> bool" where
  "pk_unique d = distinct (map exp_id (expenses d))"

text \<open>
  The tables this program produces: the ids are \<open>1, 2, \<dots>, n\<close> in storage order, and the
  counter stands at \<open>n\<close>.
\<close>

definition dense :: "database \<Rightarrow> bool" where
  "dense d = (map exp_id (expenses d) = map int [1..<Suc (length (expenses d))] \<and>
              sqlite_sequence d = int (length (expenses d)))"

section \<open>Aggregation and chart\<close>

text \<open>
  What the program shows to the user: a message box (kind, title, text) or the call that
  draws the pie chart.
\<close>

record pie_call =
  sizes :: "pyfloat list"
  labels :: "string list"
  autopct :: string
  startangle :: int
  title :: string

datatype ui_event =
    ShowInfo string string
  | ShowError string string
  | ShowWarning string string
  | ShowPie pie_call

text \<open>
  \<^verbatim>\<open>df.groupby('category')['amount'].sum()\<close>: one entry per category, the categories in
  ascending order, each with the sum of the amounts of its rows. A sum of pandas skips
  NaN values, so a NaN counts as nothing.
\<close>

definition nan_to_zero :: "pyfloat \<Rightarrow> pyfloat" where
  "nan_to_zero a = (if a = NaN then Finite 0 else a)"

fun add_to_group :: "string \<Rightarrow> pyfloat \<Rightarrow> (string \<times> pyfloat) list \<Rightarrow> (string \<times> pyfloat) list" where
  "add_to_group c a [] = [(c, nan_to_zero a)]"
| "add_to_group c a ((k, v) # kvs) =
     (if c = k then (k, fadd v (nan_to_zero a)) # kvs
      else if c < k then (c, nan_to_zero a) # (k, v) # kvs
      else (k, v) # add_to_group c a kvs)"

definition groupby_sum :: "expense list \<Rightarrow> (string \<times> pyfloat) list" where
  "groupby_sum es = fold (\<lambda>e. add_to_group (category e) (amount e)) es []"

text \<open>
  \<^verbatim>\<open>create_pie_chart\<close>: with no rows, one information box and nothing else; otherwise the
  totals by category go to \<^verbatim>\<open>ax.pie\<close>, the categories as labels.
\<close>

definition create_pie_chart :: "expense list \<Rightarrow> ui_event list" where
  "create_pie_chart es =
     (if es = [] then [ShowInfo ''Info'' ''No expenses to show.'']
      else
        (let category_totals = groupby_sum es
         in [ShowPie \<lparr>sizes = map snd category_totals, labels = map fst category_totals,
                      autopct = ''%1.1f%%'', startangle = 90,
                      title = ''Expense Breakdown by Category''\<rparr>]))"

definition is_render :: "ui_event \<Rightarrow> bool" where
  "is_render e = (case e of ShowPie _ \<Rightarrow> True | _ \<Rightarrow> False)"


subsection \<open>What the pie chart shows\<close>


text \<open>A natural number in decimal digits.\<close>

function dec_of_nat :: "nat \<Rightarrow> string" where
  "dec_of_nat n =
     (if n < 10 then [''0123456789'' ! n]
      else dec_of_nat (n div 10) @ [''0123456789'' ! (n mod 10)])"
  by pat_completeness auto
termination
  by (relation "measure id") auto

declare dec_of_nat.simps [simp del]







subsection \<open>The breakdown as the specification words it\<close>




section \<open>The application controller\<close>

subsection \<open>The time stamp\<close>

record datetime =
  year :: nat
  month :: nat
  day :: nat
  hour :: nat
  minute :: nat
  second :: nat

definition zero_pad :: "nat \<Rightarrow> nat \<Rightarrow> string" where
  "zero_pad w n = replicate (w - length (dec_of_nat n)) CHR ''0'' @ dec_of_nat n"

text \<open>
  \<^verbatim>\<open>strftime("%d-%m-%Y %H:%M:%S")\<close>: two digits for each field and four for the year, the
  day first.
\<close>

definition strftime :: "datetime \<Rightarrow> string" where
  "strftime t =
     zero_pad 2 (day t) @ ''-'' @ zero_pad 2 (month t) @ ''-'' @ zero_pad 4 (year t) @ '' '' @
     zero_pad 2 (hour t) @ '':'' @ zero_pad 2 (minute t) @ '':'' @ zero_pad 2 (second t)"

text \<open>Chronological order of two moments: year, then month, then day, and so on.\<close>

definition earlier :: "datetime \<Rightarrow> datetime \<Rightarrow> bool" where
  "earlier s t =
     ([year s, month s, day s, hour s, minute s, second s] <
      [year t, month t, day t, hour t, minute t, second t])"

subsection \<open>Reading the amount: \<^verbatim>\<open>float(text)\<close>\<close>

text \<open>
  The texts Python's \<^verbatim>\<open>float\<close> accepts, for ASCII input: white space around, a sign,
  then \<^verbatim>\<open>inf\<close>, \<^verbatim>\<open>infinity\<close> or \<^verbatim>\<open>nan\<close> in any case, or a decimal number (digits,
  single underscores between digits, a point, an exponent). \<open>None\<close> is
  \<^verbatim>\<open>ValueError\<close>. The value of a number is its exact decimal value.
\<close>

definition is_space :: "char \<Rightarrow> bool" where
  "is_space c = (c \<in> set [CHR '' '', CHR 0x09, CHR 0x0A, CHR 0x0B, CHR 0x0C, CHR 0x0D,
                            CHR 0x1C, CHR 0x1D, CHR 0x1E, CHR 0x1F])"

definition strip :: "string \<Rightarrow> string" where
  "strip s = rev (dropWhile is_space (rev (dropWhile is_space s)))"

definition lower :: "char \<Rightarrow> char" where
  "lower c =
     (case map_of (zip ''ABCDEFGHIJKLMNOPQRSTUVWXYZ'' ''abcdefghijklmnopqrstuvwxyz'') c of
        Some l \<Rightarrow> l | None \<Rightarrow> c)"

definition digit_of :: "char \<Rightarrow> nat option" where
  "digit_of c = map_of (zip ''0123456789'' [0, 1, 2, 3, 4, 5, 6, 7, 8, 9]) c"

definition take_sign :: "string \<Rightarrow> bool \<times> string" where
  "take_sign s =
     (case s of
        [] \<Rightarrow> (False, [])
      | c # r \<Rightarrow> if c = CHR ''-'' then (True, r) else if c = CHR ''+'' then (False, r)
                 else (False, s))"

text \<open>After a first digit: further digits, each with at most one underscore before it.\<close>

fun digits_tail :: "string \<Rightarrow> nat list \<times> string" where
  "digits_tail [] = ([], [])"
| "digits_tail [c] = (case digit_of c of Some v \<Rightarrow> ([v], []) | None \<Rightarrow> ([], [c]))"
| "digits_tail (c # c' # s) =
     (case digit_of c of
        Some v \<Rightarrow> (let (ds, r) = digits_tail (c' # s) in (v # ds, r))
      | None \<Rightarrow>
          (if c = CHR ''_'' then
             (case digit_of c' of
                Some v \<Rightarrow> (let (ds, r) = digits_tail s in (v # ds, r))
              | None \<Rightarrow> ([], c # c' # s))
           else ([], c # c' # s)))"

definition digitpart :: "string \<Rightarrow> (nat list \<times> string) option" where
  "digitpart s =
     (case s of
        [] \<Rightarrow> None
      | c # r \<Rightarrow>
          (case digit_of c of
             None \<Rightarrow> None
           | Some v \<Rightarrow> (let (ds, rest) = digits_tail r in Some (v # ds, rest))))"

definition nat_of_digits :: "nat list \<Rightarrow> nat" where
  "nat_of_digits ds = foldl (\<lambda>n d. 10 * n + d) 0 ds"

text \<open>The exponent, which must reach the end of the text; no exponent is exponent 0.\<close>

definition exponent :: "string \<Rightarrow> int option" where
  "exponent s =
     (case s of
        [] \<Rightarrow> Some 0
      | c # r \<Rightarrow>
          if c = CHR ''e'' \<or> c = CHR ''E'' then
            (let (neg, r') = take_sign r
             in case digitpart r' of
                  None \<Rightarrow> None
                | Some (ds, rest) \<Rightarrow>
                    if rest = [] then
                      Some (if neg then - int (nat_of_digits ds) else int (nat_of_digits ds))
                    else None)
          else None)"

definition pow10 :: "int \<Rightarrow> real" where
  "pow10 e = (if 0 \<le> e then 10 ^ nat e else 1 / 10 ^ nat (- e))"

definition scaled :: "nat list \<Rightarrow> nat list \<Rightarrow> string \<Rightarrow> real option" where
  "scaled ip fp rest =
     (case exponent rest of
        None \<Rightarrow> None
      | Some e \<Rightarrow> Some (real (nat_of_digits (ip @ fp)) * pow10 (e - int (length fp))))"

definition floatnumber :: "string \<Rightarrow> real option" where
  "floatnumber s =
     (case digitpart s of
        Some (ip, r) \<Rightarrow>
          (case r of
             [] \<Rightarrow> scaled ip [] []
           | c # r' \<Rightarrow>
               if c = CHR ''.'' then
                 (case digitpart r' of
                    Some (fp, r'') \<Rightarrow> scaled ip fp r''
                  | None \<Rightarrow> scaled ip [] r')
               else scaled ip [] r)
      | None \<Rightarrow>
          (case s of
             [] \<Rightarrow> None
           | c # r' \<Rightarrow>
               if c = CHR ''.'' then
                 (case digitpart r' of
                    Some (fp, r'') \<Rightarrow> scaled [] fp r''
                  | None \<Rightarrow> None)
               else None))"

definition py_float :: "string \<Rightarrow> pyfloat option" where
  "py_float s =
     (let (neg, r) = take_sign (strip s); l = map lower r
      in if l = ''inf'' \<or> l = ''infinity'' then Some (if neg then NegInf else PosInf)
         else if l = ''nan'' then Some NaN
         else (case floatnumber r of
                 None \<Rightarrow> None
               | Some v \<Rightarrow> Some (Finite (if neg then - v else v))))"

subsection \<open>State and operations\<close>

text \<open>
  The controller's state: the store, the selection, the theme flag, the two input
  fields, the rows the table shows, and the boxes and charts shown so far. The methods
  \<^verbatim>\<open>add_expense\<close> and \<^verbatim>\<open>delete_expense\<close> of the controller carry the prefix \<open>app_\<close>
  here, since the store has methods of the same names.
\<close>

record app =
  storage :: database
  selected_expense_id :: "int option"
  is_dark_mode :: bool
  amount_entry :: string
  category_combobox :: string
  expense_table :: "expense list"
  shown :: "ui_event list"

definition load_expenses :: "app \<Rightarrow> app" where
  "load_expenses a = a\<lparr>expense_table := get_all_expenses (storage a)\<rparr>"

definition clear_inputs :: "app \<Rightarrow> app" where
  "clear_inputs a = a\<lparr>amount_entry := [], category_combobox := [], selected_expense_id := None\<rparr>"

definition display :: "ui_event \<Rightarrow> app \<Rightarrow> app" where
  "display e a = a\<lparr>shown := shown a @ [e]\<rparr>"

text \<open>\<^verbatim>\<open>ExpenseTrackerApp.__init__\<close> on the database file as it is found.\<close>

definition init_app :: "database \<Rightarrow> app" where
  "init_app d =
     load_expenses \<lparr>storage = d, selected_expense_id = None, is_dark_mode = False,
                    amount_entry = [], category_combobox = [], expense_table = [],
                    shown = []\<rparr>"

text \<open>
  \<^verbatim>\<open>ExpenseTrackerApp.add_expense\<close>, with the clock's reading as \<open>now\<close>. \<open>Inl e\<close> is the
  exception \<open>e\<close> leaving the handler: nothing was changed before it was raised, and no box
  is shown.
\<close>

definition app_add_expense :: "datetime \<Rightarrow> app \<Rightarrow> error + app" where
  "app_add_expense now a =
     (let amount = amount_entry a; category = category_combobox a; date = strftime now
      in if amount = [] \<or> category = [] then
           Inr (display (ShowError ''Input Error'' ''All fields are required.'') a)
         else
           (case py_float amount of
              None \<Rightarrow>
                Inr (display (ShowError ''Input Error'' ''Amount must be a positive number.'') a)
            | Some v \<Rightarrow>
                if le_zero v then
                  Inr (display (ShowError ''Input Error'' ''Amount must be a positive number.'') a)
                else
                  (case add_expense (storage a) v category date of
                     Inl e \<Rightarrow> Inl e
                   | Inr d \<Rightarrow>
                       Inr (display (ShowInfo ''Success'' ''Expense added successfully!'')
                              (clear_inputs (load_expenses (a\<lparr>storage := d\<rparr>)))))))"

text \<open>
  \<^verbatim>\<open>ExpenseTrackerApp.delete_expense\<close>. The test \<^verbatim>\<open>not self.selected_expense_id\<close> holds for
  \<^verbatim>\<open>None\<close> and for the id 0.
\<close>

definition app_delete_expense :: "app \<Rightarrow> app" where
  "app_delete_expense a =
     (case selected_expense_id a of
        None \<Rightarrow>
          display (ShowWarning ''Selection Error'' ''Please select an expense to delete.'') a
      | Some i \<Rightarrow>
          if i = 0 then
            display (ShowWarning ''Selection Error'' ''Please select an expense to delete.'') a
          else
            display (ShowInfo ''Success'' ''Expense deleted successfully!'')
              (clear_inputs (load_expenses (a\<lparr>storage := delete_expense (storage a) i\<rparr>))))"

text \<open>
  \<^verbatim>\<open>on_row_select\<close>: \<open>sel\<close> is the position of the selected row of the table, if there is
  one (the widget reports rows it holds); \<open>tk_str\<close> is the text the widget gives for the
  amount of a row.
\<close>

definition on_row_select :: "(pyfloat \<Rightarrow> string) \<Rightarrow> nat option \<Rightarrow> app \<Rightarrow> app" where
  "on_row_select tk_str sel a =
     (case sel of
        None \<Rightarrow> a
      | Some n \<Rightarrow>
          if n < length (expense_table a) then
            (let values = expense_table a ! n
             in a\<lparr>selected_expense_id := Some (exp_id values),
                  amount_entry := tk_str (amount values),
                  category_combobox := category values\<rparr>)
          else a)"

definition show_pie_chart :: "app \<Rightarrow> app" where
  "show_pie_chart a = a\<lparr>shown := shown a @ create_pie_chart (get_all_expenses (storage a))\<rparr>"

definition toggle_dark_mode :: "app \<Rightarrow> app" where
  "toggle_dark_mode a = a\<lparr>is_dark_mode := \<not> is_dark_mode a\<rparr>"

text \<open>
  What holds of the controller from its start on a table of this program and after each
  of its operations: the table is dense, the rows shown are those of the store, and a
  selected id is the id of a row shown.
\<close>

definition app_inv :: "app \<Rightarrow> bool" where
  "app_inv a =
     (dense (storage a) \<and> expense_table a = get_all_expenses (storage a) \<and>
      (case selected_expense_id a of
         None \<Rightarrow> True
       | Some i \<Rightarrow> i \<in> set (map exp_id (expense_table a))))"

subsection \<open>Sample data\<close>

definition sample_records :: "expense list" where
  "sample_records =
     [\<lparr>exp_id = 1, amount = Finite 10, category = ''Food'', date = ''15-01-2024 10:00:00''\<rparr>,
      \<lparr>exp_id = 2, amount = Finite 20, category = ''Food'', date = ''01-02-2024 09:30:00''\<rparr>,
      \<lparr>exp_id = 3, amount = Finite 30, category = ''Transportation'',
        date = ''20-01-2024 18:45:10''\<rparr>]"

definition sample_db :: database where
  "sample_db = \<lparr>expenses = sample_records, sqlite_sequence = 3\<rparr>"

text \<open>The controller after a click on the row of id 2.\<close>

definition sample_app :: app where
  "sample_app =
     \<lparr>storage = sample_db, selected_expense_id = Some 2, is_dark_mode = False,
      amount_entry = ''20.0'', category_combobox = ''Food'',
      expense_table = get_all_expenses sample_db, shown = []\<rparr>"

definition jan_15 :: datetime where
  "jan_15 = \<lparr>year = 2024, month = 1, day = 15, hour = 10, minute = 0, second = 0\<rparr>"

definition feb_1 :: datetime where
  "feb_1 = \<lparr>year = 2024, month = 2, day = 1, hour = 9, minute = 30, second = 0\<rparr>"

section \<open>Properties of the record store\<close>

lemma fold_max_le: "a \<le> b \<Longrightarrow> \<forall>x\<in>set xs. x \<le> b \<Longrightarrow> fold max xs a \<le> (b::int)"
  by (induction xs arbitrary: a) auto

lemma max_rowid_dense: "dense d \<Longrightarrow> max_rowid (expenses d) \<le> int (length (expenses d))"
  unfolding max_rowid_def dense_def
  by (rule fold_max_le) auto

lemma insert_row_expenses:
  "dense d \<Longrightarrow> expenses (insert_row d a c t) =
     expenses d @ [\<lparr>exp_id = int (length (expenses d)) + 1, amount = a, category = c, date = t\<rparr>]"
  using max_rowid_dense [of d] by (simp add: insert_row_def Let_def dense_def)

lemma insert_row_sequence:
  "dense d \<Longrightarrow> sqlite_sequence (insert_row d a c t) = int (length (expenses d)) + 1"
  using max_rowid_dense [of d] by (simp add: insert_row_def Let_def dense_def)

lemma dense_insert_row:
  assumes "dense d"
  shows "dense (insert_row d a c t)"
proof -
  have ids: "map exp_id (expenses d) = map int [1..<Suc (length (expenses d))]"
    using assms by (simp add: dense_def)
  show ?thesis
    unfolding dense_def insert_row_expenses [OF assms] insert_row_sequence [OF assms]
    using ids by simp
qed

lemma dense_initialize_db: "dense initialize_db"
  by (simp add: dense_def initialize_db_def)

lemma rebuild_dense:
  "dense t \<Longrightarrow> dense (fold (\<lambda>r t. insert_row t (amount r) (category r) (date r)) rs t)"
  by (induction rs arbitrary: t) (simp_all add: dense_insert_row)

lemma rebuild_payload:
  "dense t \<Longrightarrow> map payload (expenses (fold (\<lambda>r t. insert_row t (amount r) (category r) (date r)) rs t))
     = map payload (expenses t) @ map payload rs"
  by (induction rs arbitrary: t) (simp_all add: dense_insert_row insert_row_expenses payload_def)

lemma dense_delete_expense: "dense (delete_expense d i)"
  unfolding delete_expense_def Let_def
  by (rule rebuild_dense) (simp add: dense_def)

lemma payload_delete_expense:
  "map payload (expenses (delete_expense d i)) = map payload (filter (\<lambda>r. exp_id r \<noteq> i) (expenses d))"
  unfolding delete_expense_def Let_def
  by (subst rebuild_payload) (simp_all add: dense_def)




lemma map_insort_key:
  "map g (insort_key (\<lambda>x. f (g x)) a xs) = insort_key f (g a) (map g xs)"
  by (induction xs) simp_all

lemma map_sort_key:
  "map g (sort_key (\<lambda>x. f (g x)) xs) = sort_key f (map g xs)"
  by (induction xs) (simp_all add: map_insort_key)

lemma map_payload_sort:
  "map payload (sort_key date xs) = sort_key (\<lambda>p. snd (snd p)) (map payload xs)"
proof -
  have "(\<lambda>r. snd (snd (payload r))) = date"
    by (simp add: payload_def fun_eq_iff)
  then show ?thesis
    using map_sort_key [of payload "\<lambda>p. snd (snd p)" xs] by simp
qed

lemma payload_get_all:
  "map payload (get_all_expenses d) =
   rev (sort_key (\<lambda>p. snd (snd p)) (rev (map payload (expenses d))))"
  by (simp only: get_all_expenses_def rev_map map_payload_sort [symmetric])

lemma get_all_delete:
  "map payload (get_all_expenses (delete_expense d i)) =
   map payload (filter (\<lambda>r. exp_id r \<noteq> i) (get_all_expenses d))"
proof -
  let ?P = "\<lambda>r. exp_id r \<noteq> i"
  have "map payload (get_all_expenses (delete_expense d i)) =
        rev (sort_key (\<lambda>p. snd (snd p)) (rev (map payload (filter ?P (expenses d)))))"
    by (simp only: payload_get_all payload_delete_expense)
  also have "\<dots> = rev (map payload (sort_key date (filter ?P (rev (expenses d)))))"
    by (simp only: rev_map rev_filter map_payload_sort)
  also have "\<dots> = map payload (filter ?P (get_all_expenses d))"
    by (simp only: get_all_expenses_def rev_map filter_sort [symmetric] rev_filter)
  finally show ?thesis .
qed

lemma length_filter_distinct:
  "distinct (map f xs) \<Longrightarrow> a \<in> f ` set xs \<Longrightarrow> length (filter (\<lambda>x. f x \<noteq> a) xs) + 1 = length xs"
proof (induction xs)
  case Nil
  then show ?case by simp
next
  case (Cons x xs)
  show ?case
  proof (cases "f x = a")
    case True
    with Cons.prems have "a \<notin> f ` set xs" by auto
    then have "filter (\<lambda>x. f x \<noteq> a) xs = xs" by (auto simp: filter_id_conv)
    with True show ?thesis by simp
  next
    case False
    with Cons show ?thesis by auto
  qed
qed

lemma length_get_all_expenses: "length (get_all_expenses d) = length (expenses d)"
  by (simp add: get_all_expenses_def)

lemma delete_expense_existing:
  assumes "pk_unique d" and "i \<in> set (map exp_id (expenses d))"
  shows "map payload (expenses (delete_expense d i)) =
           map payload (filter (\<lambda>r. exp_id r \<noteq> i) (expenses d)) \<and>
         length (expenses (delete_expense d i)) + 1 = length (expenses d) \<and>
         map exp_id (expenses (delete_expense d i)) = map int [1..<length (expenses d)] \<and>
         map payload (get_all_expenses (delete_expense d i)) =
           map payload (filter (\<lambda>r. exp_id r \<noteq> i) (get_all_expenses d)) \<and>
         length (get_all_expenses (delete_expense d i)) + 1 = length (get_all_expenses d)"
proof -
  let ?d' = "delete_expense d i"
  have p: "map payload (expenses ?d') = map payload (filter (\<lambda>r. exp_id r \<noteq> i) (expenses d))"
    by (rule payload_delete_expense)
  have "length (expenses ?d') = length (filter (\<lambda>r. exp_id r \<noteq> i) (expenses d))"
    using p by (metis length_map)
  moreover have "length (filter (\<lambda>r. exp_id r \<noteq> i) (expenses d)) + 1 = length (expenses d)"
    using assms by (intro length_filter_distinct) (simp_all add: pk_unique_def)
  ultimately have len: "length (expenses ?d') + 1 = length (expenses d)"
    by simp
  have "map exp_id (expenses ?d') = map int [1..<Suc (length (expenses ?d'))]"
    using dense_delete_expense [of d i] by (simp add: dense_def)
  also have "Suc (length (expenses ?d')) = length (expenses d)"
    using len by simp
  finally have ids: "map exp_id (expenses ?d') = map int [1..<length (expenses d)]" .
  from p len ids get_all_delete [of d i] show ?thesis
    by (simp add: length_get_all_expenses)
qed

lemma get_all_expenses_empty: "get_all_expenses initialize_db = []"
  by (simp add: get_all_expenses_def initialize_db_def)

lemma get_all_expenses_sorted: "sorted (rev (map date (get_all_expenses d)))"
  by (simp add: get_all_expenses_def rev_map)

text \<open>
  Claim C1. On a table whose ids are unique, deleting the id of an existing row removes
  exactly that row: the remaining rows keep their contents and their storage order,
  their ids become \<open>1, 2, \<dots>\<close> without gaps, and the listing is the former listing without
  that row.
\<close>

theorem delete_expense_renumbers:
  assumes "pk_unique d" and "i \<in> set (map exp_id (expenses d))"
  shows "map payload (expenses (delete_expense d i)) =
           map payload (filter (\<lambda>r. exp_id r \<noteq> i) (expenses d)) \<and>
         length (expenses (delete_expense d i)) + 1 = length (expenses d) \<and>
         map exp_id (expenses (delete_expense d i)) = map int [1..<length (expenses d)] \<and>
         map payload (get_all_expenses (delete_expense d i)) =
           map payload (filter (\<lambda>r. exp_id r \<noteq> i) (get_all_expenses d)) \<and>
         length (get_all_expenses (delete_expense d i)) + 1 = length (get_all_expenses d)"
  using assms by (rule delete_expense_existing)

text \<open>The sample table, from which the row of id 2 is deleted.\<close>

theorem delete_expense_renumbers_witness:
  "pk_unique sample_db \<and> 2 \<in> set (map exp_id (expenses sample_db)) \<and>
   map exp_id (expenses (delete_expense sample_db 2)) = [1, 2] \<and>
   map payload (expenses (delete_expense sample_db 2)) =
     [(Finite 10, ''Food'', ''15-01-2024 10:00:00''),
      (Finite 30, ''Transportation'', ''20-01-2024 18:45:10'')] \<and>
   map payload (get_all_expenses (delete_expense sample_db 2)) =
     [(Finite 30, ''Transportation'', ''20-01-2024 18:45:10''),
      (Finite 10, ''Food'', ''15-01-2024 10:00:00'')]"
  using delete_expense_renumbers [of sample_db 2]
  by (simp add: sample_db_def sample_records_def pk_unique_def get_all_expenses_def payload_def)



text \<open>
  Claim C2 says that the listing is newest first. The listing is ordered by the text of
  the date, largest first (\<open>get_all_expenses_sorted\<close>), and an empty store lists nothing
  (\<open>get_all_expenses_empty\<close>); but the text starts with the day of the month. Two adds, on
  15 January 2024 and then on 1 February 2024, are listed with the older one first.
\<close>

theorem get_all_expenses_day_first:
  "earlier jan_15 feb_1 \<and>
   add_expense initialize_db (Finite 10) ''Food'' (strftime jan_15) =
     Inr \<lparr>expenses = [\<lparr>exp_id = 1, amount = Finite 10, category = ''Food'',
                        date = ''15-01-2024 10:00:00''\<rparr>],
          sqlite_sequence = 1\<rparr> \<and>
   add_expense
     \<lparr>expenses = [\<lparr>exp_id = 1, amount = Finite 10, category = ''Food'',
                    date = ''15-01-2024 10:00:00''\<rparr>],
      sqlite_sequence = 1\<rparr> (Finite 20) ''Food'' (strftime feb_1) =
     Inr \<lparr>expenses = [\<lparr>exp_id = 1, amount = Finite 10, category = ''Food'',
                        date = ''15-01-2024 10:00:00''\<rparr>,
                      \<lparr>exp_id = 2, amount = Finite 20, category = ''Food'',
                        date = ''01-02-2024 09:30:00''\<rparr>],
          sqlite_sequence = 2\<rparr> \<and>
   map date (get_all_expenses
     \<lparr>expenses = [\<lparr>exp_id = 1, amount = Finite 10, category = ''Food'',
                    date = ''15-01-2024 10:00:00''\<rparr>,
                  \<lparr>exp_id = 2, amount = Finite 20, category = ''Food'',
                    date = ''01-02-2024 09:30:00''\<rparr>],
      sqlite_sequence = 2\<rparr>) = [''15-01-2024 10:00:00'', ''01-02-2024 09:30:00'']"
  by (simp add: earlier_def jan_15_def feb_1_def add_expense_def insert_row_def initialize_db_def
      max_rowid_def strftime_def zero_pad_def dec_of_nat.simps get_all_expenses_def)

section \<open>Properties of the aggregation\<close>

































text \<open>
  Claim C7. With no records the chart operation shows the information box
  \<^verbatim>\<open>No expenses to show.\<close> and draws nothing, also when it is reached from the controller
  over an empty store.
\<close>

theorem create_pie_chart_empty:
  "create_pie_chart [] = [ShowInfo ''Info'' ''No expenses to show.''] \<and>
   filter is_render (create_pie_chart []) = [] \<and>
   shown (show_pie_chart (init_app initialize_db)) = [ShowInfo ''Info'' ''No expenses to show.'']"
  by (simp add: create_pie_chart_def is_render_def show_pie_chart_def init_app_def
      load_expenses_def get_all_expenses_def initialize_db_def)



section \<open>Properties of the controller\<close>

lemma dense_ids_positive: "dense d \<Longrightarrow> r \<in> set (expenses d) \<Longrightarrow> 1 \<le> exp_id r"
proof -
  assume d: "dense d" and r: "r \<in> set (expenses d)"
  then have "exp_id r \<in> set (map int [1..<Suc (length (expenses d))])"
    by (metis dense_def image_eqI set_map)
  then show ?thesis by auto
qed

lemma dense_pk_unique: "dense d \<Longrightarrow> pk_unique d"
  by (simp add: dense_def pk_unique_def distinct_map inj_on_def)

lemma set_get_all_expenses: "set (get_all_expenses d) = set (expenses d)"
  by (simp add: get_all_expenses_def)

lemma app_inv_init_app: "dense d \<Longrightarrow> app_inv (init_app d)"
  by (simp add: app_inv_def init_app_def load_expenses_def)

lemma app_inv_display: "app_inv (display e a) = app_inv a"
  by (simp add: app_inv_def display_def split: option.splits)

lemma app_inv_reload:
  "dense d \<Longrightarrow> app_inv (clear_inputs (load_expenses (a\<lparr>storage := d\<rparr>)))"
  by (simp add: app_inv_def clear_inputs_def load_expenses_def)

lemma app_inv_app_delete_expense: "app_inv a \<Longrightarrow> app_inv (app_delete_expense a)"
  by (simp add: app_delete_expense_def app_inv_display app_inv_reload dense_delete_expense
      split: option.splits)

lemma app_inv_app_add_expense:
  "app_inv a \<Longrightarrow> app_add_expense now a = Inr a' \<Longrightarrow> app_inv a'"
  by (auto simp: app_add_expense_def Let_def add_expense_def app_inv_display app_inv_reload
      dense_insert_row app_inv_def [of a] split: option.splits if_splits)

lemma app_inv_on_row_select: "app_inv a \<Longrightarrow> app_inv (on_row_select tk_str sel a)"
  by (auto simp: on_row_select_def app_inv_def Let_def split: option.splits)

lemma app_inv_show_pie_chart: "app_inv a \<Longrightarrow> app_inv (show_pie_chart a)"
  by (auto simp: app_inv_def show_pie_chart_def split: option.splits)

lemma app_inv_toggle_dark_mode: "app_inv a \<Longrightarrow> app_inv (toggle_dark_mode a)"
  by (auto simp: app_inv_def toggle_dark_mode_def split: option.splits)

lemma app_inv_selected:
  assumes "app_inv a" "selected_expense_id a = Some i"
  shows "i \<noteq> 0 \<and> pk_unique (storage a) \<and> i \<in> set (map exp_id (expenses (storage a)))"
proof -
  from assms have d: "dense (storage a)"
    by (simp add: app_inv_def)
  from assms have "i \<in> set (map exp_id (get_all_expenses (storage a)))"
    by (auto simp: app_inv_def)
  then obtain r where r: "r \<in> set (expenses (storage a))" "exp_id r = i"
    by (auto simp: set_get_all_expenses)
  with dense_ids_positive [OF d, of r] dense_pk_unique [OF d] show ?thesis by auto
qed

lemma app_delete_expense_selected:
  assumes "selected_expense_id a = Some i" "i \<noteq> 0"
  shows "app_delete_expense a =
    a\<lparr>storage := delete_expense (storage a) i,
       expense_table := get_all_expenses (delete_expense (storage a) i),
       amount_entry := [], category_combobox := [], selected_expense_id := None,
       shown := shown a @ [ShowInfo ''Success'' ''Expense deleted successfully!'']\<rparr>"
  using assms
  by (simp add: app_delete_expense_def display_def clear_inputs_def load_expenses_def)


lemma app_add_expense_empty_field:
  assumes "amount_entry a = [] \<or> category_combobox a = []"
  shows "app_add_expense now a =
    Inr (a\<lparr>shown := shown a @ [ShowError ''Input Error'' ''All fields are required.'']\<rparr>)"
  using assms by (auto simp: app_add_expense_def Let_def display_def)

lemma app_add_expense_bad_amount:
  assumes "amount_entry a \<noteq> []" "category_combobox a \<noteq> []"
    and "py_float (amount_entry a) = None \<or> (\<exists>v. py_float (amount_entry a) = Some v \<and> le_zero v)"
  shows "app_add_expense now a =
    Inr (a\<lparr>shown := shown a @
             [ShowError ''Input Error'' ''Amount must be a positive number.'']\<rparr>)"
  using assms by (auto simp: app_add_expense_def Let_def display_def)

lemma app_add_expense_nan_amount:
  assumes "amount_entry a \<noteq> []" "category_combobox a \<noteq> []"
    and "py_float (amount_entry a) = Some NaN"
  shows "app_add_expense now a = Inl IntegrityError"
  using assms by (simp add: app_add_expense_def Let_def add_expense_def)

text \<open>
  Claim C8. In every state of the controller (\<open>app_inv\<close>): with no selection,
  \<^verbatim>\<open>delete_expense\<close> shows the warning and changes nothing else; with the row of id \<open>i\<close>
  selected, the store deletes \<open>i\<close>, the table shown loses exactly that row, and the
  selection is empty afterwards.
\<close>

theorem app_delete_expense_selection:
  assumes "app_inv a"
  shows "(selected_expense_id a = None \<longrightarrow>
            app_delete_expense a =
              a\<lparr>shown := shown a @
                   [ShowWarning ''Selection Error'' ''Please select an expense to delete.'']\<rparr>) \<and>
         (\<forall>i. selected_expense_id a = Some i \<longrightarrow>
            storage (app_delete_expense a) = delete_expense (storage a) i \<and>
            map payload (expense_table (app_delete_expense a)) =
              map payload (filter (\<lambda>r. exp_id r \<noteq> i) (expense_table a)) \<and>
            length (expense_table (app_delete_expense a)) + 1 = length (expense_table a) \<and>
            selected_expense_id (app_delete_expense a) = None \<and>
            shown (app_delete_expense a) =
              shown a @ [ShowInfo ''Success'' ''Expense deleted successfully!''])"
proof (intro conjI allI impI)
  assume "selected_expense_id a = None"
  then show "app_delete_expense a =
      a\<lparr>shown := shown a @
           [ShowWarning ''Selection Error'' ''Please select an expense to delete.'']\<rparr>"
    by (simp add: app_delete_expense_def display_def)
next
  fix i
  assume sel: "selected_expense_id a = Some i"
  from app_inv_selected [OF assms sel]
  have i: "i \<noteq> 0" and pk: "pk_unique (storage a)"
    and mem: "i \<in> set (map exp_id (expenses (storage a)))"
    by simp_all
  have t: "expense_table a = get_all_expenses (storage a)"
    using assms by (simp add: app_inv_def)
  note eq = app_delete_expense_selected [OF sel i]
  note del = delete_expense_existing [OF pk mem]
  show "storage (app_delete_expense a) = delete_expense (storage a) i"
    by (simp add: eq)
  show "map payload (expense_table (app_delete_expense a)) =
      map payload (filter (\<lambda>r. exp_id r \<noteq> i) (expense_table a))"
    using del by (simp add: eq t)
  show "length (expense_table (app_delete_expense a)) + 1 = length (expense_table a)"
    using del by (simp add: eq t)
  show "selected_expense_id (app_delete_expense a) = None"
    by (simp add: eq)
  show "shown (app_delete_expense a) =
      shown a @ [ShowInfo ''Success'' ''Expense deleted successfully!'']"
    by (simp add: eq)
qed

theorem app_delete_expense_selection_witness:
  "app_inv sample_app \<and> selected_expense_id sample_app = Some 2 \<and>
   map payload (expense_table (app_delete_expense sample_app)) =
     [(Finite 30, ''Transportation'', ''20-01-2024 18:45:10''),
      (Finite 10, ''Food'', ''15-01-2024 10:00:00'')] \<and>
   selected_expense_id (app_delete_expense sample_app) = None \<and>
   app_inv (init_app sample_db) \<and> selected_expense_id (init_app sample_db) = None \<and>
   storage (app_delete_expense (init_app sample_db)) = sample_db \<and>
   shown (app_delete_expense (init_app sample_db)) =
     [ShowWarning ''Selection Error'' ''Please select an expense to delete.'']"
  using app_delete_expense_selection [of sample_app]
    app_delete_expense_selection [of "init_app sample_db"]
  by (simp add: app_inv_def dense_def sample_app_def init_app_def load_expenses_def
      sample_db_def sample_records_def get_all_expenses_def payload_def)



text \<open>
  Claim C3 says that the store refuses an amount \<open>\<le> 0\<close>. It does not: the amount \<open>-5\<close> is
  inserted into the empty table.
\<close>

theorem add_expense_accepts_nonpositive:
  "le_zero (Finite (- 5)) \<and>
   add_expense initialize_db (Finite (- 5)) ''Food'' ''01-01-2024 10:00:00'' =
     Inr \<lparr>expenses = [\<lparr>exp_id = 1, amount = Finite (- 5), category = ''Food'',
                        date = ''01-01-2024 10:00:00''\<rparr>],
          sqlite_sequence = 1\<rparr>"
  by (simp add: add_expense_def insert_row_def initialize_db_def max_rowid_def)

text \<open>
  Claim C3, as the program has it. The store's add has no validation: an amount \<open>\<le> 0\<close> is
  inserted like any other, as a new last row. Such an amount is refused one level up, by
  the controller's add, which shows an error box and leaves the store as it is.
\<close>

theorem add_expense_no_validation:
  assumes "le_zero v"
  shows "add_expense d v c t = Inr (insert_row d v c t) \<and>
         map payload (expenses (insert_row d v c t)) = map payload (expenses d) @ [(v, c, t)] \<and>
         (amount_entry a \<noteq> [] \<and> category_combobox a \<noteq> [] \<and> py_float (amount_entry a) = Some v \<longrightarrow>
            app_add_expense now a =
              Inr (a\<lparr>shown := shown a @
                     [ShowError ''Input Error'' ''Amount must be a positive number.'']\<rparr>))"
proof (intro conjI impI)
  from assms have "v \<noteq> NaN" by auto
  then show "add_expense d v c t = Inr (insert_row d v c t)"
    by (simp add: add_expense_def)
  show "map payload (expenses (insert_row d v c t)) = map payload (expenses d) @ [(v, c, t)]"
    by (simp add: insert_row_def Let_def payload_def)
next
  assume "amount_entry a \<noteq> [] \<and> category_combobox a \<noteq> [] \<and> py_float (amount_entry a) = Some v"
  with assms show "app_add_expense now a =
      Inr (a\<lparr>shown := shown a @
             [ShowError ''Input Error'' ''Amount must be a positive number.'']\<rparr>)"
    by (intro app_add_expense_bad_amount) auto
qed

theorem add_expense_no_validation_witness:
  "le_zero (Finite (- 5)) \<and>
   add_expense sample_db (Finite (- 5)) ''Food'' ''02-02-2024 08:00:00'' =
     Inr (insert_row sample_db (Finite (- 5)) ''Food'' ''02-02-2024 08:00:00'') \<and>
   map payload (expenses (insert_row sample_db (Finite (- 5)) ''Food'' ''02-02-2024 08:00:00'')) =
     [(Finite 10, ''Food'', ''15-01-2024 10:00:00''),
      (Finite 20, ''Food'', ''01-02-2024 09:30:00''),
      (Finite 30, ''Transportation'', ''20-01-2024 18:45:10''),
      (Finite (- 5), ''Food'', ''02-02-2024 08:00:00'')] \<and>
   py_float ''-5'' = Some (Finite (- 5)) \<and>
   app_add_expense feb_1 (sample_app\<lparr>amount_entry := ''-5''\<rparr>) =
     Inr (sample_app\<lparr>amount_entry := ''-5'',
            shown := [ShowError ''Input Error'' ''Amount must be a positive number.'']\<rparr>)"
proof -
  have p: "py_float ''-5'' = Some (Finite (- 5))"
    by (simp add: py_float_def strip_def is_space_def take_sign_def lower_def floatnumber_def
        digitpart_def digit_of_def scaled_def exponent_def nat_of_digits_def pow10_def)
  have s: "map payload (expenses sample_db) =
     [(Finite 10, ''Food'', ''15-01-2024 10:00:00''),
      (Finite 20, ''Food'', ''01-02-2024 09:30:00''),
      (Finite 30, ''Transportation'', ''20-01-2024 18:45:10'')]"
    by (simp add: sample_db_def sample_records_def payload_def)
  show ?thesis
    using p s add_expense_no_validation [of "Finite (- 5)" sample_db "''Food''"
        "''02-02-2024 08:00:00''" "sample_app\<lparr>amount_entry := ''-5''\<rparr>" feb_1]
    by (simp add: sample_app_def)
qed

text \<open>
  Claim C4 says that a text which is not a positive number gets a validation error. The
  lemmas \<open>app_add_expense_empty_field\<close>, \<open>app_add_expense_bad_amount\<close> and
  \<open>app_add_expense_valid\<close> give the behaviour the claim describes for every other input;
  the text \<^verbatim>\<open>nan\<close> passes the test \<^verbatim>\<open>amount <= 0\<close>, reaches the store, and the
  exception of the store leaves the handler with no box shown.
\<close>

theorem app_add_expense_nan_text:
  "py_float ''nan'' = Some NaN \<and> \<not> le_zero NaN \<and>
   app_add_expense feb_1 (sample_app\<lparr>amount_entry := ''nan'', category_combobox := ''Food''\<rparr>) =
     Inl IntegrityError"
  by (simp add: py_float_def strip_def is_space_def take_sign_def lower_def
      app_add_expense_def Let_def add_expense_def sample_app_def)

end
